theory Spec2Isabelle
  imports Main "HOL-Library.Multiset"
begin

section \<open>Strings\<close>

text \<open>
  A Python \<open>str\<close> is a sequence of Unicode code points and \<open>len\<close> counts code points,
  so a string is modelled as a list of code points (natural numbers), not as a list of
  bytes.
\<close>

type_synonym codepoint = nat
type_synonym pystr = "codepoint list"

text \<open>Reading an ASCII literal as a Python string, for concrete inputs.\<close>

definition py :: "string \<Rightarrow> pystr" where
  "py s = map of_char s"

text \<open>
  The line boundaries of \<open>str.splitlines\<close>: LF, VT, FF, CR, FS, GS, RS, NEL, LS and PS.
  The pair CR LF counts as one boundary.
\<close>

definition is_linebreak :: "codepoint \<Rightarrow> bool" where
  "is_linebreak c \<longleftrightarrow> c \<in> {10, 11, 12, 13, 28, 29, 30, 133, 8232, 8233}"

text \<open>
  \<open>text.splitlines(keepends=True)\<close>: the scanner walks over the text, \<open>cur\<close> holds the
  characters of the line read so far; a line is closed after its terminator, and a last
  line without terminator is closed at the end of the text. The empty text has no line.
\<close>

fun splitlines_from :: "pystr \<Rightarrow> pystr \<Rightarrow> pystr list" where
  "splitlines_from cur [] = (if cur = [] then [] else [cur])"
| "splitlines_from cur [c] = [cur @ [c]]"
| "splitlines_from cur (c # d # cs) =
     (if c = 13 \<and> d = 10 then (cur @ [c, d]) # splitlines_from [] cs
      else if is_linebreak c then (cur @ [c]) # splitlines_from [] (d # cs)
      else splitlines_from (cur @ [c]) (d # cs))"

definition splitlines :: "pystr \<Rightarrow> pystr list" where
  "splitlines text = splitlines_from [] text"

section \<open>The chunker\<close>

text \<open>
  The loop of \<open>chunk_text\<close> over the lines, with its three variables \<open>chunks\<close>, \<open>buf\<close>
  and \<open>count\<close> (here \<open>cnt\<close>). When the buffer is sealed, it is emptied and the count reset, and then
  the line is appended as in the other branch. After the loop a non-empty buffer is
  sealed.
\<close>

fun chunk_loop :: "int \<Rightarrow> pystr list \<Rightarrow> pystr list \<Rightarrow> pystr list \<Rightarrow> int \<Rightarrow> pystr list" where
  "chunk_loop max_chars [] chunks buf cnt =
     (if buf \<noteq> [] then chunks @ [concat buf] else chunks)"
| "chunk_loop max_chars (line # rest) chunks buf cnt =
     (if cnt + int (length line) > max_chars \<and> buf \<noteq> []
      then chunk_loop max_chars rest (chunks @ [concat buf]) ([] @ [line]) (0 + int (length line))
      else chunk_loop max_chars rest chunks (buf @ [line]) (cnt + int (length line)))"

definition chunk_text :: "pystr \<Rightarrow> int \<Rightarrow> pystr list" where
  "chunk_text text max_chars =
     (if int (length text) \<le> max_chars then [text]
      else chunk_loop max_chars (splitlines text) [] [] 0)"


text \<open>
  The property of one chunk that the size bound is about: it fits, or it is one of the
  lines \<open>L\<close> of the text and that line alone is too long.
\<close>

definition chunk_ok :: "int \<Rightarrow> pystr set \<Rightarrow> pystr \<Rightarrow> bool" where
  "chunk_ok m L c \<longleftrightarrow> int (length c) \<le> m \<or> (c \<in> L \<and> m < int (length c))"

section \<open>Errors\<close>

text \<open>
  Every exception of the program is an \<open>Exception\<close> with a message; \<open>str(e)\<close> is the
  message.
\<close>

datatype error = ValueError pystr | IndexError pystr | OSError pystr | ServiceError pystr

fun str_of_error :: "error \<Rightarrow> pystr" where
  "str_of_error (ValueError msg) = msg"
| "str_of_error (IndexError msg) = msg"
| "str_of_error (OSError msg) = msg"
| "str_of_error (ServiceError msg) = msg"

section \<open>The translation service\<close>

text \<open>The request dictionary that \<open>translate_chunk\<close> sends.\<close>

record request =
  req_parent :: pystr
  req_contents :: "pystr list"
  req_target_language_code :: pystr
  req_mime_type :: pystr
  req_source_language_code :: "pystr option"

text \<open>
  \<open>client.translate_text\<close> is the remote service. Its answer to a request is an error or
  the list of translations, and it may depend on the requests that the same job has made
  before (the log).
\<close>

type_synonym service = "request list \<Rightarrow> request \<Rightarrow> error + pystr list"

definition get_parent :: "pystr \<Rightarrow> pystr \<Rightarrow> pystr" where
  "get_parent project_id location =
     py ''projects/'' @ project_id @ py ''/locations/'' @ location"

text \<open>
  The request of \<open>translate_chunk\<close> for one chunk. The source language is added when it
  is given and not empty. The only caller passes neither a MIME type nor a model, so the
  MIME type is the default and there is no model entry.
\<close>

definition chunk_request :: "pystr \<Rightarrow> pystr \<Rightarrow> pystr option \<Rightarrow> pystr \<Rightarrow> request" where
  "chunk_request parent target_lang source_lang text_chunk =
     \<lparr>req_parent = parent, req_contents = [text_chunk],
      req_target_language_code = target_lang, req_mime_type = py ''text/plain'',
      req_source_language_code =
        (case source_lang of None \<Rightarrow> None | Some s \<Rightarrow> if s \<noteq> [] then Some s else None)\<rparr>"

text \<open>
  \<open>translate_chunk\<close>: one call of the service; the call is logged whether it fails or
  not. The result joins the translations of the response.
\<close>

definition translate_chunk ::
  "service \<Rightarrow> request list \<Rightarrow> pystr \<Rightarrow> pystr \<Rightarrow> pystr \<Rightarrow> pystr option \<Rightarrow> (error + pystr) \<times> request list" where
  "translate_chunk client log parent text_chunk target_lang source_lang =
     (let req = chunk_request parent target_lang source_lang text_chunk
      in (case client log req of Inl e \<Rightarrow> Inl e | Inr translations \<Rightarrow> Inr (concat translations),
          log @ [req]))"

text \<open>
  The loop of \<open>translate_full_text\<close> over the chunks, with the list \<open>pieces\<close>. An
  exception of \<open>translate_chunk\<close> leaves the loop at once.
\<close>

fun translate_pieces ::
  "service \<Rightarrow> pystr \<Rightarrow> pystr \<Rightarrow> pystr option \<Rightarrow> request list \<Rightarrow> pystr list \<Rightarrow> pystr list
     \<Rightarrow> (error + pystr list) \<times> request list" where
  "translate_pieces client parent target_lang source_lang log pieces [] = (Inr pieces, log)"
| "translate_pieces client parent target_lang source_lang log pieces (chunk # rest) =
     (case translate_chunk client log parent chunk target_lang source_lang of
        (Inl e, log') \<Rightarrow> (Inl e, log')
      | (Inr piece, log') \<Rightarrow>
          translate_pieces client parent target_lang source_lang log' (pieces @ [piece]) rest)"

definition translate_full_text ::
  "service \<Rightarrow> request list \<Rightarrow> pystr \<Rightarrow> pystr \<Rightarrow> pystr \<Rightarrow> pystr option \<Rightarrow> (error + pystr) \<times> request list" where
  "translate_full_text client log parent text target_lang source_lang =
     (case translate_pieces client parent target_lang source_lang log [] (chunk_text text 4500) of
        (Inl e, log') \<Rightarrow> (Inl e, log')
      | (Inr pieces, log') \<Rightarrow> (Inr (concat pieces), log'))"

text \<open>
  The answers the service gives to a sequence of requests made one after the other,
  each logged before the next. This is the yardstick for \<open>translate_full_text\<close>, not
  part of the program.
\<close>

fun responses :: "service \<Rightarrow> request list \<Rightarrow> request list \<Rightarrow> (error + pystr list) list" where
  "responses client log [] = []"
| "responses client log (req # reqs) = client log req # responses client (log @ [req]) reqs"

section \<open>The run\<close>

record supported_language =
  language_code :: pystr
  display_name :: pystr

text \<open>
  A future of the pool with the pair that \<open>future_map\<close> gives it: the language code and
  name, and what \<open>future.result()\<close> returns or raises.
\<close>

record future =
  lang_code :: pystr
  lang_name :: pystr
  result :: "error + pystr"

text \<open>\<open>pathlib.Path(outdir, name)\<close>: a directory and a file name in it.\<close>

datatype path = Path pystr pystr

text \<open>
  What \<open>out_file.write_text(translated)\<close> does. It opens the file for writing, which
  creates or empties it, and then writes the text. It may raise at the open, and then
  the file is as it was; or after the open, and then the file holds what had been
  written until then, possibly nothing, in place of what it held before.
\<close>

datatype write_result = Written | Open_failed error | Write_failed error pystr

text \<open>
  What the run sees of the world outside: the input file, the three operations of the
  service, the file system (the directory creation and each write may fail), the stem
  that \<open>pathlib\<close> computes of a path, and the order in which \<open>as_completed\<close> hands
  the futures over.
\<close>

record env =
  read_text :: "pystr \<Rightarrow> error + pystr"
  get_supported_languages :: "pystr \<Rightarrow> error + supported_language list"
  detect_language :: "pystr \<Rightarrow> pystr \<Rightarrow> error + pystr list"
  translate_text :: service
  mkdir :: "pystr \<Rightarrow> error option"
  write_text :: "path \<Rightarrow> pystr \<Rightarrow> write_result"
  initial_files :: "path \<rightharpoonup> pystr"
  path_stem :: "pystr \<Rightarrow> pystr"
  as_completed :: "future list \<Rightarrow> future list"

text \<open>The lines the run prints, with the values that are formatted into them.\<close>

datatype line =
  Detected pystr
| Found nat nat
| Starting
| Progress_ok nat nat pystr "pystr option"
| Progress_failed nat nat pystr pystr

text \<open>
  \<open>detect_source_language\<close>: the sample is the first 5000 characters; the first
  language of the response is taken, and indexing an empty response raises.
\<close>

definition detect_source_language :: "env \<Rightarrow> pystr \<Rightarrow> pystr \<Rightarrow> error + pystr" where
  "detect_source_language env parent text =
     (case detect_language env parent (take 5000 text) of
        Inl e \<Rightarrow> Inl e
      | Inr [] \<Rightarrow> Inl (IndexError (py ''list index out of range''))
      | Inr (code # _) \<Rightarrow> Inr code)"

text \<open>
  The dictionary \<open>name_by_code\<close>: the display name, or the code where the name is
  empty; a later entry of the listing replaces an earlier one with the same code.
\<close>

definition name_by_code :: "supported_language list \<Rightarrow> (pystr \<rightharpoonup> pystr)" where
  "name_by_code supported =
     fold (\<lambda>lang m. m(language_code lang \<mapsto>
             (if display_name lang \<noteq> [] then display_name lang else language_code lang)))
       supported Map.empty"

text \<open>The loop that builds the worklist \<open>to_translate\<close>.\<close>

fun build_worklist ::
  "pystr \<Rightarrow> pystr list \<Rightarrow> (pystr \<rightharpoonup> pystr) \<Rightarrow> pystr list \<Rightarrow> (pystr \<times> pystr) list
     \<Rightarrow> (pystr \<times> pystr) list" where
  "build_worklist source_lang exclude names [] to_translate = to_translate"
| "build_worklist source_lang exclude names (code # rest) to_translate =
     (if code = source_lang then build_worklist source_lang exclude names rest to_translate
      else if code \<in> set exclude then build_worklist source_lang exclude names rest to_translate
      else build_worklist source_lang exclude names rest
             (to_translate @ [(code, case names code of Some name \<Rightarrow> name | None \<Rightarrow> code)]))"

text \<open>What the first part of \<open>do_translate_all\<close> hands to the second.\<close>

record prepared =
  run_parent :: pystr
  run_text :: pystr
  run_source_lang :: pystr
  run_to_translate :: "(pystr \<times> pystr) list"
  run_stdout :: "line list"

text \<open>
  \<open>do_translate_all\<close> up to \<open>ensure_outdir\<close>: each of the calls may raise, and that
  ends the run.
\<close>

definition prepare_run :: "env \<Rightarrow> pystr \<Rightarrow> pystr \<Rightarrow> pystr \<Rightarrow> pystr list \<Rightarrow> error + prepared" where
  "prepare_run env project_id input_path outdir exclude =
     (let parent = get_parent project_id (py ''global'') in
      case read_text env input_path of
        Inl e \<Rightarrow> Inl e
      | Inr text \<Rightarrow>
          (case get_supported_languages env parent of
             Inl e \<Rightarrow> Inl e
           | Inr supported \<Rightarrow>
               (let supported_codes = map language_code supported in
                case detect_source_language env parent text of
                  Inl e \<Rightarrow> Inl e
                | Inr source_lang \<Rightarrow>
                    (let to_translate =
                           build_worklist source_lang exclude (name_by_code supported) supported_codes []
                     in case mkdir env outdir of
                          Some e \<Rightarrow> Inl e
                        | None \<Rightarrow>
                            Inr \<lparr>run_parent = parent, run_text = text, run_source_lang = source_lang,
                                 run_to_translate = to_translate,
                                 run_stdout = [Detected source_lang,
                                               Found (length supported_codes) (length to_translate)]\<rparr>))))"

text \<open>The state of the completion loop: the two dictionaries, the counter, the files, the output.\<close>

record run_state =
  results :: "pystr \<rightharpoonup> pystr"
  errors :: "pystr \<rightharpoonup> pystr"
  completed :: nat
  files :: "path \<rightharpoonup> pystr"
  stdout :: "line list"

text \<open>
  The function \<open>_task\<close> that is submitted for a language. Every job starts with an
  empty log: what the service answers to a job does not depend on the calls of the other
  jobs.
\<close>

definition task :: "env \<Rightarrow> pystr \<Rightarrow> pystr \<Rightarrow> pystr \<Rightarrow> pystr \<Rightarrow> error + pystr" where
  "task env parent text source_lang code =
     fst (translate_full_text (translate_text env) [] parent text code (Some source_lang))"

definition out_file :: "env \<Rightarrow> pystr \<Rightarrow> pystr \<Rightarrow> pystr \<Rightarrow> path" where
  "out_file env input_path outdir code =
     Path outdir (path_stem env input_path @ py ''.'' @ code @ py ''.txt'')"

text \<open>The \<open>except\<close> branch of the loop body.\<close>

definition record_failure :: "nat \<Rightarrow> pystr \<Rightarrow> error \<Rightarrow> run_state \<Rightarrow> run_state" where
  "record_failure total_jobs code e st =
     (let st1 = st\<lparr>errors := (errors st)(code \<mapsto> str_of_error e)\<rparr>;
          st2 = st1\<lparr>completed := completed st1 + 1\<rparr>
      in st2\<lparr>stdout := stdout st2 @ [Progress_failed (completed st2) total_jobs code (str_of_error e)]\<rparr>)"

text \<open>
  The body of the completion loop for one future. An exception of \<open>future.result()\<close>
  goes to the \<open>except\<close> branch before anything is stored; an exception of the write goes
  there after the entry of \<open>results\<close> has been made, and when it is raised after the
  open, the file has been changed.
\<close>

definition complete_one :: "env \<Rightarrow> pystr \<Rightarrow> pystr \<Rightarrow> bool \<Rightarrow> nat \<Rightarrow> future \<Rightarrow> run_state \<Rightarrow> run_state" where
  "complete_one env input_path outdir include_language_names total_jobs fut st =
     (case result fut of
        Inl e \<Rightarrow> record_failure total_jobs (lang_code fut) e st
      | Inr translated \<Rightarrow>
          (let st1 = st\<lparr>results := (results st)(lang_code fut \<mapsto> translated)\<rparr>;
               file = out_file env input_path outdir (lang_code fut)
           in case write_text env file translated of
                Open_failed e \<Rightarrow> record_failure total_jobs (lang_code fut) e st1
              | Write_failed e partial \<Rightarrow>
                  record_failure total_jobs (lang_code fut) e
                    (st1\<lparr>files := (files st1)(file \<mapsto> partial)\<rparr>)
              | Written \<Rightarrow>
                  (let st2 = st1\<lparr>files := (files st1)(file \<mapsto> translated)\<rparr>;
                       st3 = st2\<lparr>completed := completed st2 + 1\<rparr>
                   in st3\<lparr>stdout := stdout st3 @
                        [Progress_ok (completed st3) total_jobs (lang_code fut)
                           (if include_language_names \<and> lang_name fut \<noteq> []
                            then Some (lang_name fut) else None)]\<rparr>)))"

definition completion_loop ::
  "env \<Rightarrow> pystr \<Rightarrow> pystr \<Rightarrow> bool \<Rightarrow> nat \<Rightarrow> future list \<Rightarrow> run_state \<Rightarrow> run_state" where
  "completion_loop env input_path outdir include_language_names total_jobs futs st =
     fold (complete_one env input_path outdir include_language_names total_jobs) futs st"

text \<open>
  \<open>do_translate_all\<close> from the pool on. \<open>ThreadPoolExecutor\<close> raises \<open>ValueError\<close> for
  a worker count below one; otherwise every entry of the worklist is submitted and the
  futures are handled in the order of \<open>as_completed\<close>. The loop starts with empty
  dictionaries, the counter at zero, the files as they are and what has been printed so
  far.
\<close>

definition run_task :: "env \<Rightarrow> prepared \<Rightarrow> pystr \<Rightarrow> error + pystr" where
  "run_task env p code = task env (run_parent p) (run_text p) (run_source_lang p) code"

definition submit_all :: "env \<Rightarrow> prepared \<Rightarrow> future list" where
  "submit_all env p =
     map (\<lambda>(code, name). \<lparr>lang_code = code, lang_name = name, result = run_task env p code\<rparr>)
       (run_to_translate p)"

definition start_state :: "env \<Rightarrow> prepared \<Rightarrow> run_state" where
  "start_state env p =
     \<lparr>results = Map.empty, errors = Map.empty, completed = 0,
      files = initial_files env, stdout = run_stdout p @ [Starting]\<rparr>"

definition run_jobs :: "env \<Rightarrow> prepared \<Rightarrow> pystr \<Rightarrow> pystr \<Rightarrow> bool \<Rightarrow> int \<Rightarrow> error + run_state" where
  "run_jobs env p input_path outdir include_language_names max_workers =
     (if max_workers \<le> 0 then Inl (ValueError (py ''max_workers must be greater than 0''))
      else
        (let futs = submit_all env p;
             total_jobs = length futs
         in Inr (completion_loop env input_path outdir include_language_names total_jobs
                   (as_completed env futs) (start_state env p))))"

definition do_translate_all ::
  "env \<Rightarrow> pystr \<Rightarrow> pystr \<Rightarrow> pystr \<Rightarrow> bool \<Rightarrow> pystr list \<Rightarrow> int \<Rightarrow> error + run_state" where
  "do_translate_all env project_id input_path outdir include_language_names exclude max_workers =
     (case prepare_run env project_id input_path outdir exclude of
        Inl e \<Rightarrow> Inl e
      | Inr p \<Rightarrow> run_jobs env p input_path outdir include_language_names max_workers)"

section \<open>The command line\<close>

record args =
  arg_project :: pystr
  arg_input :: pystr
  arg_outdir :: pystr
  arg_exclude :: pystr
  arg_workers :: int

text \<open>\<open>s.split(",")\<close> and \<open>s.strip()\<close>.\<close>

fun split_from :: "codepoint \<Rightarrow> pystr \<Rightarrow> pystr \<Rightarrow> pystr list" where
  "split_from sep cur [] = [cur]"
| "split_from sep cur (c # cs) =
     (if c = sep then cur # split_from sep [] cs else split_from sep (cur @ [c]) cs)"

definition is_space :: "codepoint \<Rightarrow> bool" where
  "is_space c \<longleftrightarrow>
     (9 \<le> c \<and> c \<le> 13) \<or> (28 \<le> c \<and> c \<le> 32) \<or> c = 133 \<or> c = 160 \<or> c = 5760 \<or>
     (8192 \<le> c \<and> c \<le> 8202) \<or> c = 8232 \<or> c = 8233 \<or> c = 8239 \<or> c = 8287 \<or> c = 12288"

definition strip :: "pystr \<Rightarrow> pystr" where
  "strip s = rev (dropWhile is_space (rev (dropWhile is_space s)))"

text \<open>The exclusion list of \<open>main\<close>: the entries between commas, stripped, the empty ones dropped.\<close>

definition parse_exclude :: "pystr \<Rightarrow> pystr list" where
  "parse_exclude s = map strip (filter (\<lambda>x. strip x \<noteq> []) (split_from 44 [] s))"

text \<open>
  \<open>main\<close>, from the parsed arguments on. The language names are included by default,
  and the worker count is raised to one where it is smaller.
\<close>

definition main :: "env \<Rightarrow> args \<Rightarrow> error + run_state" where
  "main env a =
     (let exclude = parse_exclude (arg_exclude a)
      in do_translate_all env (arg_project a) (arg_input a) (arg_outdir a) True exclude
           (max 1 (arg_workers a)))"

section \<open>What a run reports\<close>

text \<open>
  The outcome of one job in the completion loop, from the language code and \<open>res\<close>,
  what the task returned or raised: the error of the task, or the error of the write, or
  the translated text.
\<close>

definition job_outcome :: "env \<Rightarrow> pystr \<Rightarrow> pystr \<Rightarrow> pystr \<Rightarrow> error + pystr \<Rightarrow> error + pystr" where
  "job_outcome env input_path outdir code res =
     (case res of
        Inl e \<Rightarrow> Inl e
      | Inr translated \<Rightarrow>
          (case write_text env (out_file env input_path outdir code) translated of
             Written \<Rightarrow> Inr translated
           | Open_failed e \<Rightarrow> Inl e
           | Write_failed e partial \<Rightarrow> Inl e))"


text \<open>The progress line of the future that is the \<open>k\<close>-th to complete.\<close>

definition progress_line :: "env \<Rightarrow> pystr \<Rightarrow> pystr \<Rightarrow> bool \<Rightarrow> nat \<Rightarrow> nat \<Rightarrow> future \<Rightarrow> line" where
  "progress_line env input_path outdir include_language_names total_jobs k fut =
     (case job_outcome env input_path outdir (lang_code fut) (result fut) of
        Inl e \<Rightarrow> Progress_failed k total_jobs (lang_code fut) (str_of_error e)
      | Inr translated \<Rightarrow>
          Progress_ok k total_jobs (lang_code fut)
            (if include_language_names \<and> lang_name fut \<noteq> [] then Some (lang_name fut) else None))"

fun is_progress :: "line \<Rightarrow> bool" where
  "is_progress (Progress_ok k n code name) = True"
| "is_progress (Progress_failed k n code msg) = True"
| "is_progress _ = False"

fun progress_count :: "line \<Rightarrow> nat" where
  "progress_count (Progress_ok k n code name) = k"
| "progress_count (Progress_failed k n code msg) = k"
| "progress_count _ = 0"

fun progress_total :: "line \<Rightarrow> nat" where
  "progress_total (Progress_ok k n code name) = n"
| "progress_total (Progress_failed k n code msg) = n"
| "progress_total _ = 0"

fun progress_code :: "line \<Rightarrow> pystr" where
  "progress_code (Progress_ok k n code name) = code"
| "progress_code (Progress_failed k n code msg) = code"
| "progress_code _ = []"


section \<open>An example run\<close>

text \<open>
  A document of two short lines, \<open>Hello\<close> and \<open>World\<close>, which is one chunk.
  A document of three lines: two lines of 4500 letters and their terminator, and a last
  line of one letter. Each line is a chunk of its own.
\<close>

definition hello_text :: pystr where
  "hello_text = [72, 101, 108, 108, 111, 10, 87, 111, 114, 108, 100, 10]"

definition long_line :: pystr where
  "long_line = replicate 4500 97"

definition example_text :: pystr where
  "example_text = long_line @ 10 # long_line @ [10, 98]"

text \<open>
  A service that prefixes the chunk with the target language and a colon, and that
  refuses the second call of the job for German.
\<close>

definition example_service :: service where
  "example_service log req =
     (if req_target_language_code req = py ''de'' \<and> length log = 1
      then Inl (ServiceError (py ''unavailable''))
      else Inr [req_target_language_code req @ 58 # concat (req_contents req)])"

text \<open>
  The world of the example: the document \<open>text\<close>, English (the detected source), French
  and German (without display name) as the supported languages, a file for German that
  is there before the run, writes that fail as \<open>wr\<close> says, and futures that complete
  in the reverse order of their submission.
\<close>

definition example_env :: "pystr \<Rightarrow> (path \<Rightarrow> pystr \<Rightarrow> write_result) \<Rightarrow> env" where
  "example_env text wr =
     \<lparr>read_text = (\<lambda>input_path. Inr text),
      get_supported_languages = (\<lambda>parent.
        Inr [\<lparr>language_code = py ''en'', display_name = py ''English''\<rparr>,
             \<lparr>language_code = py ''fr'', display_name = py ''French''\<rparr>,
             \<lparr>language_code = py ''de'', display_name = []\<rparr>]),
      detect_language = (\<lambda>parent content. Inr [py ''en'']),
      translate_text = example_service,
      mkdir = (\<lambda>outdir. None),
      write_text = wr,
      initial_files = [Path (py ''out'') (py ''input.de.txt'') \<mapsto> py ''alt''],
      path_stem = (\<lambda>input_path. py ''input''),
      as_completed = rev\<rparr>"

text \<open>
  Writes that all succeed; and writes of which the one of the French file fails after its
  first eight characters, the others succeed.
\<close>

definition no_write_error :: "path \<Rightarrow> pystr \<Rightarrow> write_result" where
  "no_write_error file data = Written"


text \<open>
  What the first part of the run hands over in the example, with nothing excluded: French
  and German are to be translated.
\<close>

definition example_prepared :: "pystr \<Rightarrow> prepared" where
  "example_prepared text =
     \<lparr>run_parent = py ''projects/proj/locations/global'', run_text = text,
      run_source_lang = py ''en'',
      run_to_translate = [(py ''fr'', py ''French''), (py ''de'', py ''de'')],
      run_stdout = [Detected (py ''en''), Found 3 2]\<rparr>"

text \<open>The parsed command line of the example, with a worker count \<open>n\<close>.\<close>

definition example_args :: "int \<Rightarrow> args" where
  "example_args n =
     \<lparr>arg_project = py ''proj'', arg_input = py ''input.txt'', arg_outdir = py ''out'',
      arg_exclude = py ''de,de, FR'', arg_workers = n\<rparr>"

section \<open>Properties of the line splitter\<close>

lemma concat_splitlines_from: "concat (splitlines_from cur cs) = cur @ cs"
  by (induction cur cs rule: splitlines_from.induct) simp_all

lemma concat_splitlines: "concat (splitlines text) = text"
  by (simp add: splitlines_def concat_splitlines_from)

lemma splitlines_from_nonempty: "l \<in> set (splitlines_from cur cs) \<Longrightarrow> l \<noteq> []"
  by (induction cur cs rule: splitlines_from.induct) (auto split: if_splits)

lemma splitlines_nonempty: "l \<in> set (splitlines text) \<Longrightarrow> l \<noteq> []"
  by (simp add: splitlines_def splitlines_from_nonempty)

section \<open>Properties of the chunker\<close>

lemma concat_chunk_loop:
  "concat (chunk_loop m ls chunks buf cnt) = concat chunks @ concat buf @ concat ls"
  by (induction m ls chunks buf cnt rule: chunk_loop.induct) simp_all

lemma concat_chunk_text: "concat (chunk_text text m) = text"
  by (simp add: chunk_text_def concat_chunk_loop concat_splitlines)

text \<open>
  C1 (chunk round-trip): for every text and every \<open>max_chars \<ge> 1\<close>, the chunks of
  \<open>chunk_text\<close>, concatenated in order, are the text itself: no character is added,
  dropped or moved.
\<close>

theorem chunk_text_roundtrip:
  "1 \<le> max_chars \<Longrightarrow> concat (chunk_text text max_chars) = text"
  by (rule concat_chunk_text)

lemma splitlines_abc_de_f:
  "splitlines [97, 98, 99, 10, 100, 101, 10, 102] = [[97, 98, 99, 10], [100, 101, 10], [102]]"
  by (simp add: splitlines_def is_linebreak_def)

theorem chunk_text_roundtrip_witness:
  "(1::int) \<le> 5 \<and>
   chunk_text [97, 98, 99, 10, 100, 101, 10, 102] 5 = [[97, 98, 99, 10], [100, 101, 10, 102]] \<and>
   concat [[97, 98, 99, 10], [100, 101, 10, 102]] = [97, 98, 99, 10, 100, 101, 10, 102 :: nat]"
proof -
  have h: "(1::int) \<le> 5" by simp
  have c: "chunk_text [97, 98, 99, 10, 100, 101, 10, 102] 5 = [[97, 98, 99, 10], [100, 101, 10, 102]]"
    by (simp add: chunk_text_def splitlines_abc_de_f)
  from chunk_text_roundtrip [OF h, of "[97, 98, 99, 10, 100, 101, 10, 102]"]
  have "concat [[97, 98, 99, 10], [100, 101, 10, 102]] = [97, 98, 99, 10, 100, 101, 10, 102 :: nat]"
    unfolding c .
  with h c show ?thesis by blast
qed

subsection \<open>The size of a chunk\<close>

lemma chunk_ok_line: "l \<in> L \<Longrightarrow> chunk_ok m L l"
  by (auto simp: chunk_ok_def)

lemma chunk_loop_bound:
  "\<forall>c \<in> set chunks. chunk_ok m L c \<Longrightarrow> cnt = int (length (concat buf)) \<Longrightarrow>
   buf = [] \<or> (\<exists>l\<in>L. buf = [l]) \<or> cnt \<le> m \<Longrightarrow> set ls \<subseteq> L \<Longrightarrow>
   c \<in> set (chunk_loop m ls chunks buf cnt) \<Longrightarrow> chunk_ok m L c"
proof (induction ls arbitrary: chunks buf cnt)
  case Nil
  then show ?case
    by (auto simp: chunk_ok_def split: if_splits)
next
  case (Cons line rest)
  show ?case
  proof (cases "cnt + int (length line) > m \<and> buf \<noteq> []")
    case True
    have sealed: "chunk_ok m L (concat buf)"
      using Cons.prems(2,3) True by (auto simp: chunk_ok_def)
    have "c \<in> set (chunk_loop m rest (chunks @ [concat buf]) [line] (int (length line)))"
      using Cons.prems(5) True by simp
    moreover have "\<forall>c \<in> set (chunks @ [concat buf]). chunk_ok m L c"
      using Cons.prems(1) sealed by simp
    moreover have "[line] = [] \<or> (\<exists>l\<in>L. [line] = [l]) \<or> int (length line) \<le> m"
      using Cons.prems(4) by simp
    ultimately show ?thesis
      using Cons.IH [of "chunks @ [concat buf]" "int (length line)" "[line]"] Cons.prems(4)
      by simp
  next
    case False
    have "c \<in> set (chunk_loop m rest chunks (buf @ [line]) (cnt + int (length line)))"
      using Cons.prems(5) False by auto
    moreover have "buf @ [line] = [] \<or> (\<exists>l\<in>L. buf @ [line] = [l]) \<or> cnt + int (length line) \<le> m"
      using False Cons.prems(4) by auto
    ultimately show ?thesis
      using Cons.IH [of chunks "cnt + int (length line)" "buf @ [line]"] Cons.prems(1,2,4)
      by simp
  qed
qed

lemma chunk_loop_keeps: "c \<in> set chunks \<Longrightarrow> c \<in> set (chunk_loop m ls chunks buf cnt)"
  by (induction m ls chunks buf cnt rule: chunk_loop.induct) simp_all

lemma chunk_loop_oversize_buf:
  "m < int (length l) \<Longrightarrow> l \<in> set (chunk_loop m ls chunks [l] (int (length l)))"
  by (cases ls) (simp_all add: chunk_loop_keeps)

lemma chunk_loop_oversize:
  "l \<in> set ls \<Longrightarrow> m < int (length l) \<Longrightarrow> cnt = int (length (concat buf)) \<Longrightarrow>
   l \<in> set (chunk_loop m ls chunks buf cnt)"
proof (induction ls arbitrary: chunks buf cnt)
  case Nil
  then show ?case by simp
next
  case (Cons line rest)
  show ?case
  proof (cases "l = line")
    case True
    show ?thesis
    proof (cases "buf = []")
      case True
      with \<open>l = line\<close> Cons.prems show ?thesis
        by (simp add: chunk_loop_oversize_buf)
    next
      case False
      with \<open>l = line\<close> Cons.prems show ?thesis
        by (simp add: chunk_loop_oversize_buf)
    qed
  next
    case False
    with Cons.prems have "l \<in> set rest" by simp
    then show ?thesis
      using Cons.IH [of "int (length line)" "[line]"] Cons.IH [of "cnt + int (length line)" "buf @ [line]"]
        Cons.prems(2,3)
      by simp
  qed
qed

lemma length_le_concat: "l \<in> set ls \<Longrightarrow> length l \<le> length (concat ls)"
  by (induction ls) auto

text \<open>
  C2 (chunk size bound): for every text and every \<open>max_chars \<ge> 1\<close>, a chunk of
  \<open>chunk_text\<close> has at most \<open>max_chars\<close> characters, unless it is a single line of the
  text that is longer than \<open>max_chars\<close>; and every such line is a chunk of its own, whole.
\<close>

theorem chunk_text_size_bound:
  "1 \<le> max_chars \<Longrightarrow>
   (\<forall>c \<in> set (chunk_text text max_chars).
      int (length c) \<le> max_chars \<or> (c \<in> set (splitlines text) \<and> max_chars < int (length c))) \<and>
   (\<forall>l \<in> set (splitlines text).
      max_chars < int (length l) \<longrightarrow> l \<in> set (chunk_text text max_chars))"
proof (intro conjI ballI impI)
  fix c assume "c \<in> set (chunk_text text max_chars)"
  then have "chunk_ok max_chars (set (splitlines text)) c"
    using chunk_loop_bound [of "[]" max_chars "set (splitlines text)" 0 "[]" "splitlines text" c]
    by (auto simp: chunk_text_def chunk_ok_def split: if_splits)
  then show "int (length c) \<le> max_chars \<or> (c \<in> set (splitlines text) \<and> max_chars < int (length c))"
    by (simp add: chunk_ok_def)
next
  fix l assume l: "l \<in> set (splitlines text)" "max_chars < int (length l)"
  have "length l \<le> length (concat (splitlines text))"
    using l(1) by (rule length_le_concat)
  then have "\<not> int (length text) \<le> max_chars"
    using l(2) by (simp add: concat_splitlines)
  then show "l \<in> set (chunk_text text max_chars)"
    using l by (simp add: chunk_text_def chunk_loop_oversize)
qed

lemma splitlines_long_bb_cc:
  "splitlines [97, 97, 97, 97, 97, 97, 97, 10, 98, 98, 10, 99, 99, 10] =
     [[97, 97, 97, 97, 97, 97, 97, 10], [98, 98, 10], [99, 99, 10]]"
  by (simp add: splitlines_def is_linebreak_def)

theorem chunk_text_size_bound_witness:
  "(1::int) \<le> 5 \<and>
   [97, 97, 97, 97, 97, 97, 97, 10] \<in> set (splitlines [97, 97, 97, 97, 97, 97, 97, 10, 98, 98, 10, 99, 99, 10]) \<and>
   (5::int) < int (length [97, 97, 97, 97, 97, 97, 97, 10 :: nat]) \<and>
   [97, 97, 97, 97, 97, 97, 97, 10] \<in> set (chunk_text [97, 97, 97, 97, 97, 97, 97, 10, 98, 98, 10, 99, 99, 10] 5) \<and>
   [98, 98, 10] \<in> set (chunk_text [97, 97, 97, 97, 97, 97, 97, 10, 98, 98, 10, 99, 99, 10] 5) \<and>
   int (length [98, 98, 10 :: nat]) \<le> 5"
proof -
  have h: "(1::int) \<le> 5" by simp
  have l: "[97, 97, 97, 97, 97, 97, 97, 10] \<in> set (splitlines [97, 97, 97, 97, 97, 97, 97, 10, 98, 98, 10, 99, 99, 10])"
    by (simp add: splitlines_long_bb_cc)
  have big: "(5::int) < int (length [97, 97, 97, 97, 97, 97, 97, 10 :: nat])" by simp
  note t = chunk_text_size_bound [OF h, of "[97, 97, 97, 97, 97, 97, 97, 10, 98, 98, 10, 99, 99, 10]"]
  from t l big
  have own: "[97, 97, 97, 97, 97, 97, 97, 10] \<in> set (chunk_text [97, 97, 97, 97, 97, 97, 97, 10, 98, 98, 10, 99, 99, 10] 5)"
    by blast
  have small: "[98, 98, 10] \<in> set (chunk_text [97, 97, 97, 97, 97, 97, 97, 10, 98, 98, 10, 99, 99, 10] 5)"
    by (simp add: chunk_text_def splitlines_long_bb_cc)
  have "\<not> (5::int) < int (length [98, 98, 10 :: nat])" by simp
  with t small have "int (length [98, 98, 10 :: nat]) \<le> 5" by blast
  with h l big own small show ?thesis by blast
qed

subsection \<open>The number of chunks\<close>

lemma chunk_loop_length_ge:
  "length chunks + (if ls = [] \<and> buf = [] then 0 else 1) \<le> length (chunk_loop m ls chunks buf cnt)"
proof (induction ls arbitrary: chunks buf cnt)
  case Nil
  show ?case by simp
next
  case (Cons line rest)
  show ?case
    using Cons.IH [of "chunks @ [concat buf]" "[line]" "int (length line)"]
      Cons.IH [of chunks "buf @ [line]" "cnt + int (length line)"]
    by (simp split: if_splits)
qed

lemma chunk_loop_two:
  "buf \<noteq> [] \<Longrightarrow> ls \<noteq> [] \<Longrightarrow> m < cnt + int (length (concat ls)) \<Longrightarrow>
   length chunks + 2 \<le> length (chunk_loop m ls chunks buf cnt)"
proof (induction ls arbitrary: buf cnt)
  case Nil
  then show ?case by simp
next
  case (Cons line rest)
  show ?case
  proof (cases "cnt + int (length line) > m")
    case True
    then show ?thesis
      using Cons.prems(1) chunk_loop_length_ge [of "chunks @ [concat buf]" rest "[line]" m "int (length line)"]
      by simp
  next
    case False
    with Cons.prems(3) have "rest \<noteq> []" by auto
    then show ?thesis
      using False Cons.IH [of "buf @ [line]" "cnt + int (length line)"] Cons.prems(3)
      by (simp add: add.assoc)
  qed
qed

lemma chunk_loop_single:
  "m < int (length (concat ls)) \<Longrightarrow>
   length (chunk_loop m ls [] [] 0) = 1 \<longleftrightarrow> length ls = 1"
proof (cases ls)
  case Nil
  then show ?thesis by simp
next
  case (Cons l1 rest)
  assume big: "m < int (length (concat ls))"
  show ?thesis
  proof (cases rest)
    case Nil
    with Cons show ?thesis by simp
  next
    case (Cons l2 rest')
    have "0 + 2 \<le> length (chunk_loop m rest [] [l1] (int (length l1)))"
      using chunk_loop_two [of "[l1]" rest m "int (length l1)" "[]"] big Cons \<open>ls = l1 # rest\<close>
      by simp
    then show ?thesis
      using Cons \<open>ls = l1 # rest\<close> by simp
  qed
qed

lemma splitlines_aaaaa: "splitlines [97, 97, 97, 97, 97] = [[97, 97, 97, 97, 97]]"
  by (simp add: splitlines_def is_linebreak_def)

text \<open>
  C3 as stated (one chunk exactly when the text has at most \<open>max_chars\<close> characters)
  fails: a text of five characters without a line terminator is a single line, which is
  never split, so with \<open>max_chars = 3\<close> it comes back as one chunk of five characters.
\<close>

theorem chunk_text_single_chunk_counterexample:
  "\<not> (length (chunk_text [97, 97, 97, 97, 97] 3) = 1 \<longleftrightarrow>
      int (length [97, 97, 97, 97, 97 :: nat]) \<le> 3)"
  by (simp add: chunk_text_def splitlines_aaaaa)

text \<open>
  C3, amended: for every text and every \<open>max_chars \<ge> 1\<close>, \<open>chunk_text\<close> returns
  exactly one chunk if and only if the text has at most \<open>max_chars\<close> characters or
  consists of a single line; a single chunk is always the whole text, a text of at most
  \<open>max_chars\<close> characters is returned as one chunk, and the empty text gives one empty
  chunk.
\<close>

theorem chunk_text_single_chunk:
  "1 \<le> max_chars \<Longrightarrow>
   (length (chunk_text text max_chars) = 1 \<longleftrightarrow>
      int (length text) \<le> max_chars \<or> length (splitlines text) = 1) \<and>
   (length (chunk_text text max_chars) = 1 \<longrightarrow> chunk_text text max_chars = [text]) \<and>
   (int (length text) \<le> max_chars \<longrightarrow> chunk_text text max_chars = [text]) \<and>
   chunk_text [] max_chars = [[]]"
proof (intro conjI impI)
  show "length (chunk_text text max_chars) = 1 \<longleftrightarrow>
      int (length text) \<le> max_chars \<or> length (splitlines text) = 1"
    using chunk_loop_single [of max_chars "splitlines text"]
    by (simp add: chunk_text_def concat_splitlines)
next
  assume "length (chunk_text text max_chars) = 1"
  then obtain c where c: "chunk_text text max_chars = [c]"
    by (cases "chunk_text text max_chars") simp_all
  have "concat (chunk_text text max_chars) = text"
    by (rule concat_chunk_text)
  with c show "chunk_text text max_chars = [text]" by simp
next
  assume "int (length text) \<le> max_chars"
  then show "chunk_text text max_chars = [text]" by (simp add: chunk_text_def)
next
  assume "1 \<le> max_chars"
  then show "chunk_text [] max_chars = [[]]" by (simp add: chunk_text_def)
qed

theorem chunk_text_single_chunk_witness:
  "(1::int) \<le> 3 \<and> length (chunk_text [97, 97, 97, 97, 97] 3) = 1 \<and>
   length (splitlines [97, 97, 97, 97, 97]) = 1 \<and>
   chunk_text [97, 97, 97, 97, 97] 3 = [[97, 97, 97, 97, 97]] \<and> chunk_text [] 3 = [[]]"
proof -
  have h: "(1::int) \<le> 3" by simp
  have l: "length (splitlines [97, 97, 97, 97, 97]) = 1" by (simp add: splitlines_aaaaa)
  note t = chunk_text_single_chunk [OF h, of "[97, 97, 97, 97, 97]"]
  from t l have one: "length (chunk_text [97, 97, 97, 97, 97] 3) = 1" by blast
  with t have "chunk_text [97, 97, 97, 97, 97] 3 = [[97, 97, 97, 97, 97]]" by blast
  moreover from t have "chunk_text [] 3 = [[]]" by blast
  ultimately show ?thesis using h l one by blast
qed

section \<open>The example document\<close>

lemma splitlines_from_linebreak:
  "is_linebreak c \<Longrightarrow> c \<noteq> 13 \<Longrightarrow> splitlines_from cur (c # cs) = (cur @ [c]) # splitlines_from [] cs"
  by (cases cs) simp_all

lemma splitlines_from_plain:
  "\<forall>c \<in> set xs. \<not> is_linebreak c \<Longrightarrow>
   splitlines_from cur (xs @ r # rs) = splitlines_from (cur @ xs) (r # rs)"
proof (induction xs arbitrary: cur)
  case Nil
  show ?case by simp
next
  case (Cons x xs)
  from Cons.prems have x: "\<not> is_linebreak x" and xs: "\<forall>c \<in> set xs. \<not> is_linebreak c"
    by simp_all
  from x have "x \<noteq> 13" by (auto simp: is_linebreak_def)
  obtain d ds where d: "xs @ r # rs = d # ds" by (cases "xs @ r # rs") simp_all
  have "splitlines_from cur ((x # xs) @ r # rs) = splitlines_from (cur @ [x]) (xs @ r # rs)"
    using x \<open>x \<noteq> 13\<close> d by simp
  also have "\<dots> = splitlines_from ((cur @ [x]) @ xs) (r # rs)"
    using xs by (rule Cons.IH)
  finally show ?case by simp
qed

lemma long_line_plain: "\<forall>c \<in> set long_line. \<not> is_linebreak c"
  by (simp add: long_line_def is_linebreak_def)

lemma length_long_line: "length long_line = 4500"
  by (simp add: long_line_def)

lemma splitlines_example_text:
  "splitlines example_text = [long_line @ [10], long_line @ [10], [98]]"
proof -
  have lf: "is_linebreak 10" "(10::nat) \<noteq> 13" by (simp_all add: is_linebreak_def)
  have "splitlines example_text = splitlines_from long_line (10 # long_line @ [10, 98])"
    using splitlines_from_plain [OF long_line_plain, of "[]" 10 "long_line @ [10, 98]"]
    by (simp add: splitlines_def example_text_def)
  also have "\<dots> = (long_line @ [10]) # splitlines_from [] (long_line @ [10, 98])"
    using lf by (rule splitlines_from_linebreak)
  also have "splitlines_from [] (long_line @ [10, 98]) = splitlines_from long_line [10, 98]"
    using splitlines_from_plain [OF long_line_plain, of "[]" 10 "[98]"] by simp
  also have "\<dots> = (long_line @ [10]) # splitlines_from [] [98]"
    using lf by (rule splitlines_from_linebreak)
  finally show ?thesis by simp
qed

lemma chunk_text_example_text:
  "chunk_text example_text 4500 = [long_line @ [10], long_line @ [10], [98]]"
proof -
  have "length example_text = 9003"
    by (simp add: example_text_def length_long_line)
  then show ?thesis
    by (simp add: chunk_text_def splitlines_example_text length_long_line)
qed

section \<open>Properties of the chunk translator\<close>

lemma translate_pieces_ok:
  "responses client log (map (chunk_request parent target_lang source_lang) chunks) = map Inr oks \<Longrightarrow>
   translate_pieces client parent target_lang source_lang log pieces chunks =
     (Inr (pieces @ map concat oks), log @ map (chunk_request parent target_lang source_lang) chunks)"
proof (induction chunks arbitrary: log pieces oks)
  case Nil
  then show ?case by simp
next
  case (Cons chunk rest)
  then obtain ok oks' where oks: "oks = ok # oks'"
    and first: "client log (chunk_request parent target_lang source_lang chunk) = Inr ok"
    and others: "responses client (log @ [chunk_request parent target_lang source_lang chunk])
        (map (chunk_request parent target_lang source_lang) rest) = map Inr oks'"
    by (cases oks) auto
  show ?case
    using first Cons.IH [OF others] oks
    by (simp add: translate_chunk_def)
qed

lemma translate_pieces_fail:
  "responses client log (map (chunk_request parent target_lang source_lang) chunks) =
     map Inr oks @ Inl e # others \<Longrightarrow>
   translate_pieces client parent target_lang source_lang log pieces chunks =
     (Inl e, log @ take (Suc (length oks)) (map (chunk_request parent target_lang source_lang) chunks))"
proof (induction chunks arbitrary: log pieces oks)
  case Nil
  then show ?case by simp
next
  case (Cons chunk rest)
  show ?case
  proof (cases oks)
    case Nil
    with Cons.prems have "client log (chunk_request parent target_lang source_lang chunk) = Inl e"
      by simp
    with Nil show ?thesis by (simp add: translate_chunk_def)
  next
    case (Cons ok oks')
    with Cons.prems have first: "client log (chunk_request parent target_lang source_lang chunk) = Inr ok"
      and later: "responses client (log @ [chunk_request parent target_lang source_lang chunk])
        (map (chunk_request parent target_lang source_lang) rest) = map Inr oks' @ Inl e # others"
      by simp_all
    show ?thesis
      using first Cons.IH [OF later] Cons
      by (simp add: translate_chunk_def)
  qed
qed

text \<open>
  C9 (fail-fast and ordered concatenation): \<open>translate_full_text\<close> sends the chunks
  of the document to the service one after the other, in their order. When every call
  succeeds, the result is the concatenation of the translations in that order and every
  chunk has been sent once. When a call fails, the result is that error and nothing
  else, and the calls made are those up to the failing one: none for the chunks after it.
\<close>

theorem translate_full_text_fail_fast:
  "(responses client log (map (chunk_request parent target_lang source_lang) (chunk_text text 4500)) =
      map Inr oks \<longrightarrow>
    translate_full_text client log parent text target_lang source_lang =
      (Inr (concat (map concat oks)),
       log @ map (chunk_request parent target_lang source_lang) (chunk_text text 4500))) \<and>
   (responses client log (map (chunk_request parent target_lang source_lang) (chunk_text text 4500)) =
      map Inr oks @ Inl e # others \<longrightarrow>
    translate_full_text client log parent text target_lang source_lang =
      (Inl e,
       log @ take (Suc (length oks))
               (map (chunk_request parent target_lang source_lang) (chunk_text text 4500))))"
  by (simp add: translate_full_text_def translate_pieces_ok translate_pieces_fail)

lemma responses_example_de:
  "responses example_service []
     (map (chunk_request parent (py ''de'') source_lang) (chunk_text example_text 4500)) =
   map Inr [[py ''de'' @ 58 # long_line @ [10]]] @ Inl (ServiceError (py ''unavailable'')) #
     [Inr [py ''de'' @ [58, 98]]]"
  by (simp add: chunk_text_example_text example_service_def chunk_request_def)

lemma responses_example_fr:
  "responses example_service []
     (map (chunk_request parent (py ''fr'') source_lang) (chunk_text example_text 4500)) =
   map Inr [[py ''fr'' @ 58 # long_line @ [10]], [py ''fr'' @ 58 # long_line @ [10]], [py ''fr'' @ [58, 98]]]"
  by (simp add: chunk_text_example_text example_service_def chunk_request_def py_def)

theorem translate_full_text_fail_fast_witness:
  "responses example_service []
     (map (chunk_request (py ''p'') (py ''de'') (Some (py ''en''))) (chunk_text example_text 4500)) =
   map Inr [[py ''de'' @ 58 # long_line @ [10]]] @ Inl (ServiceError (py ''unavailable'')) #
     [Inr [py ''de'' @ [58, 98]]] \<and>
   translate_full_text example_service [] (py ''p'') example_text (py ''de'') (Some (py ''en'')) =
     (Inl (ServiceError (py ''unavailable'')),
      [chunk_request (py ''p'') (py ''de'') (Some (py ''en'')) (long_line @ [10]),
       chunk_request (py ''p'') (py ''de'') (Some (py ''en'')) (long_line @ [10])]) \<and>
   responses example_service []
     (map (chunk_request (py ''p'') (py ''fr'') (Some (py ''en''))) (chunk_text example_text 4500)) =
   map Inr [[py ''fr'' @ 58 # long_line @ [10]], [py ''fr'' @ 58 # long_line @ [10]], [py ''fr'' @ [58, 98]]] \<and>
   translate_full_text example_service [] (py ''p'') example_text (py ''fr'') (Some (py ''en'')) =
     (Inr (py ''fr'' @ 58 # long_line @ 10 # py ''fr'' @ 58 # long_line @ 10 # py ''fr'' @ [58, 98]),
      [chunk_request (py ''p'') (py ''fr'') (Some (py ''en'')) (long_line @ [10]),
       chunk_request (py ''p'') (py ''fr'') (Some (py ''en'')) (long_line @ [10]),
       chunk_request (py ''p'') (py ''fr'') (Some (py ''en'')) [98]])"
proof -
  note de = responses_example_de [of "py ''p''" "Some (py ''en'')"]
  note fr = responses_example_fr [of "py ''p''" "Some (py ''en'')"]
  from translate_full_text_fail_fast
    [of example_service "[]" "py ''p''" "py ''de''" "Some (py ''en'')" example_text
        "[[py ''de'' @ 58 # long_line @ [10]]]" "ServiceError (py ''unavailable'')"
        "[Inr [py ''de'' @ [58, 98]]]"] de
  have a: "translate_full_text example_service [] (py ''p'') example_text (py ''de'') (Some (py ''en'')) =
     (Inl (ServiceError (py ''unavailable'')),
      [chunk_request (py ''p'') (py ''de'') (Some (py ''en'')) (long_line @ [10]),
       chunk_request (py ''p'') (py ''de'') (Some (py ''en'')) (long_line @ [10])])"
    by (simp add: chunk_text_example_text)
  from translate_full_text_fail_fast
    [of example_service "[]" "py ''p''" "py ''fr''" "Some (py ''en'')" example_text
        "[[py ''fr'' @ 58 # long_line @ [10]], [py ''fr'' @ 58 # long_line @ [10]], [py ''fr'' @ [58, 98]]]"] fr
  have b: "translate_full_text example_service [] (py ''p'') example_text (py ''fr'') (Some (py ''en'')) =
     (Inr (py ''fr'' @ 58 # long_line @ 10 # py ''fr'' @ 58 # long_line @ 10 # py ''fr'' @ [58, 98]),
      [chunk_request (py ''p'') (py ''fr'') (Some (py ''en'')) (long_line @ [10]),
       chunk_request (py ''p'') (py ''fr'') (Some (py ''en'')) (long_line @ [10]),
       chunk_request (py ''p'') (py ''fr'') (Some (py ''en'')) [98]])"
    by (simp add: chunk_text_example_text)
  from de a fr b show ?thesis by blast
qed

section \<open>Properties of the worklist\<close>

lemma build_worklist_codes:
  "map fst (build_worklist source_lang exclude names codes to_translate) =
     map fst to_translate @ filter (\<lambda>code. code \<noteq> source_lang \<and> code \<notin> set exclude) codes"
  by (induction codes arbitrary: to_translate) simp_all

lemma build_worklist_exclude_set:
  "set exclude' = set exclude \<Longrightarrow>
   build_worklist source_lang exclude' names codes to_translate =
     build_worklist source_lang exclude names codes to_translate"
  by (induction codes arbitrary: to_translate) simp_all

lemma prepare_run_worklist:
  "prepare_run env project_id input_path outdir exclude = Inr p \<Longrightarrow>
   \<exists>supported. get_supported_languages env (get_parent project_id (py ''global'')) = Inr supported \<and>
     map fst (run_to_translate p) =
       filter (\<lambda>code. code \<noteq> run_source_lang p \<and> code \<notin> set exclude) (map language_code supported)"
  by (auto simp: prepare_run_def Let_def build_worklist_codes
        split: sum.splits option.splits)

lemma prepare_run_exclude_set:
  "set exclude' = set exclude \<Longrightarrow>
   prepare_run env project_id input_path outdir exclude' =
     prepare_run env project_id input_path outdir exclude"
  by (simp add: prepare_run_def Let_def build_worklist_exclude_set [of exclude' exclude]
        split: sum.splits option.splits)

text \<open>
  C7 (worklist exclusion): whatever the listing, the detected source and the exclusion
  list are, the worklist that \<open>do_translate_all\<close> builds holds neither the detected
  source language nor a code of the exclusion list. The codes are compared as they are
  (the worklist is the listing without the codes equal to the source or to an entry of the
  exclusion list), and an exclusion list with the same entries, repeated or in another
  order, gives the same worklist.
\<close>

theorem worklist_exclusion:
  "prepare_run env project_id input_path outdir exclude = Inr p \<Longrightarrow>
   run_source_lang p \<notin> fst ` set (run_to_translate p) \<and>
   (\<forall>code \<in> set exclude. code \<notin> fst ` set (run_to_translate p)) \<and>
   (\<exists>supported. get_supported_languages env (get_parent project_id (py ''global'')) = Inr supported \<and>
      map fst (run_to_translate p) =
        filter (\<lambda>code. code \<noteq> run_source_lang p \<and> code \<notin> set exclude)
          (map language_code supported)) \<and>
   (\<forall>exclude'. set exclude' = set exclude \<longrightarrow>
      prepare_run env project_id input_path outdir exclude' = Inr p)"
proof (intro conjI ballI allI impI)
  assume prep: "prepare_run env project_id input_path outdir exclude = Inr p"
  from prepare_run_worklist [OF prep] obtain supported :: "supported_language list" where
    listing: "get_supported_languages env (get_parent project_id (py ''global'')) = Inr supported"
    and codes: "map fst (run_to_translate p) =
       filter (\<lambda>code. code \<noteq> run_source_lang p \<and> code \<notin> set exclude) (map language_code supported)"
    by blast
  have "fst ` set (run_to_translate p) = set (map fst (run_to_translate p))" by simp
  then have set_codes: "fst ` set (run_to_translate p) =
      {code \<in> set (map language_code supported). code \<noteq> run_source_lang p \<and> code \<notin> set exclude}"
    unfolding codes by simp
  show "run_source_lang p \<notin> fst ` set (run_to_translate p)"
    unfolding set_codes by simp
  show "code \<notin> fst ` set (run_to_translate p)" if "code \<in> set exclude" for code
    unfolding set_codes using that by simp
  show "\<exists>supported. get_supported_languages env (get_parent project_id (py ''global'')) = Inr supported \<and>
      map fst (run_to_translate p) =
        filter (\<lambda>code. code \<noteq> run_source_lang p \<and> code \<notin> set exclude)
          (map language_code supported)"
    using listing codes by blast
  show "prepare_run env project_id input_path outdir exclude' = Inr p"
    if "set exclude' = set exclude" for exclude'
    using prep prepare_run_exclude_set [OF that] by simp
qed

lemma prepare_example_excluding:
  "prepare_run (example_env text wr) (py ''proj'') (py ''input.txt'') (py ''out'')
     [py ''de'', py ''de'', py ''FR''] =
   Inr \<lparr>run_parent = py ''projects/proj/locations/global'', run_text = text,
        run_source_lang = py ''en'', run_to_translate = [(py ''fr'', py ''French'')],
        run_stdout = [Detected (py ''en''), Found 3 1]\<rparr>"
  by (simp add: prepare_run_def example_env_def detect_source_language_def name_by_code_def
        get_parent_def py_def)

theorem worklist_exclusion_witness:
  "prepare_run (example_env example_text no_write_error) (py ''proj'') (py ''input.txt'') (py ''out'')
     [py ''de'', py ''de'', py ''FR''] =
   Inr \<lparr>run_parent = py ''projects/proj/locations/global'', run_text = example_text,
        run_source_lang = py ''en'', run_to_translate = [(py ''fr'', py ''French'')],
        run_stdout = [Detected (py ''en''), Found 3 1]\<rparr> \<and>
   py ''en'' \<notin> fst ` set [(py ''fr'', py ''French'')] \<and>
   py ''de'' \<in> set [py ''de'', py ''de'', py ''FR''] \<and>
   py ''de'' \<notin> fst ` set [(py ''fr'', py ''French'')] \<and>
   set [py ''FR'', py ''de''] = set [py ''de'', py ''de'', py ''FR''] \<and>
   prepare_run (example_env example_text no_write_error) (py ''proj'') (py ''input.txt'') (py ''out'')
     [py ''FR'', py ''de''] =
   Inr \<lparr>run_parent = py ''projects/proj/locations/global'', run_text = example_text,
        run_source_lang = py ''en'', run_to_translate = [(py ''fr'', py ''French'')],
        run_stdout = [Detected (py ''en''), Found 3 1]\<rparr>"
proof -
  note prep = prepare_example_excluding [of example_text no_write_error]
  note t = worklist_exclusion [OF prep]
  have mem: "py ''de'' \<in> set [py ''de'', py ''de'', py ''FR'']" by simp
  have same: "set [py ''FR'', py ''de''] = set [py ''de'', py ''de'', py ''FR'']" by auto
  from t have "py ''en'' \<notin> fst ` set [(py ''fr'', py ''French'')]" by simp
  moreover from t mem have "py ''de'' \<notin> fst ` set [(py ''fr'', py ''French'')]"
    by (simp del: set_simps list.set)
  moreover from t same
  have "prepare_run (example_env example_text no_write_error) (py ''proj'') (py ''input.txt'') (py ''out'')
     [py ''FR'', py ''de''] =
   Inr \<lparr>run_parent = py ''projects/proj/locations/global'', run_text = example_text,
        run_source_lang = py ''en'', run_to_translate = [(py ''fr'', py ''French'')],
        run_stdout = [Detected (py ''en''), Found 3 1]\<rparr>"
    by blast
  ultimately show ?thesis using prep mem same by blast
qed

section \<open>Properties of the completion loop\<close>

subsection \<open>One future\<close>






lemma completion_loop_Nil [simp]:
  "completion_loop env input_path outdir incl n [] st = st"
  by (simp add: completion_loop_def)

lemma completion_loop_Cons [simp]:
  "completion_loop env input_path outdir incl n (fut # futs) st =
     completion_loop env input_path outdir incl n futs
       (complete_one env input_path outdir incl n fut st)"
  by (simp add: completion_loop_def)

subsection \<open>The counter and the progress lines\<close>



lemma is_progress_progress_line [simp]:
  "is_progress (progress_line env input_path outdir incl n k fut)"
  by (simp add: progress_line_def split: sum.splits)

lemma progress_count_progress_line [simp]:
  "progress_count (progress_line env input_path outdir incl n k fut) = k"
  by (simp add: progress_line_def split: sum.splits)

lemma progress_total_progress_line [simp]:
  "progress_total (progress_line env input_path outdir incl n k fut) = n"
  by (simp add: progress_line_def split: sum.splits)

lemma progress_code_progress_line [simp]:
  "progress_code (progress_line env input_path outdir incl n k fut) = lang_code fut"
  by (simp add: progress_line_def split: sum.splits)


subsection \<open>The two dictionaries and the files\<close>




lemma out_file_inject [simp]:
  "out_file env input_path outdir code = out_file env input_path outdir code' \<longleftrightarrow> code = code'"
  by (simp add: out_file_def)







section \<open>Properties of a run\<close>

lemma do_translate_all_run:
  "prepare_run env project_id input_path outdir exclude = Inr p \<Longrightarrow> 1 \<le> max_workers \<Longrightarrow>
   do_translate_all env project_id input_path outdir incl exclude max_workers =
     Inr (completion_loop env input_path outdir incl (length (run_to_translate p))
            (as_completed env (submit_all env p)) (start_state env p))"
  by (simp add: do_translate_all_def run_jobs_def submit_all_def)














section \<open>The example run\<close>

lemma prepare_example:
  "prepare_run (example_env text wr) (py ''proj'') (py ''input.txt'') (py ''out'') [] =
     Inr (example_prepared text)"
  by (simp add: prepare_run_def example_env_def example_prepared_def detect_source_language_def
        name_by_code_def get_parent_def py_def)












section \<open>The example run and the claims about a run\<close>












section \<open>The worker count\<close>

text \<open>
  Called with a worker count below one, \<open>do_translate_all\<close> ends with the
  \<open>ValueError\<close> of the pool once the setup has succeeded.
\<close>

lemma do_translate_all_no_workers:
  "prepare_run env project_id input_path outdir exclude = Inr p \<Longrightarrow> max_workers \<le> 0 \<Longrightarrow>
   do_translate_all env project_id input_path outdir incl exclude max_workers =
     Inl (ValueError (py ''max_workers must be greater than 0''))"
  by (simp add: do_translate_all_def run_jobs_def)

text \<open>
  C8 as stated fails for the scheduler itself: \<open>do_translate_all\<close> hands its worker count
  to the pool as it is, so with no worker it ends with the \<open>ValueError\<close> of the pool,
  where with one worker it runs the jobs. In the example on the short document:
\<close>

theorem worker_count_coercion_counterexample:
  "do_translate_all (example_env hello_text no_write_error) (py ''proj'') (py ''input.txt'')
     (py ''out'') True [] 0 = Inl (ValueError (py ''max_workers must be greater than 0'')) \<and>
   \<not> isl (do_translate_all (example_env hello_text no_write_error) (py ''proj'') (py ''input.txt'')
            (py ''out'') True [] 1)"
proof -
  have none: "(0::int) \<le> 0" and one: "(1::int) \<le> 1" by simp_all
  have "do_translate_all (example_env hello_text no_write_error) (py ''proj'') (py ''input.txt'')
     (py ''out'') True [] 0 = Inl (ValueError (py ''max_workers must be greater than 0''))"
    using prepare_example none by (rule do_translate_all_no_workers)
  moreover have "\<not> isl (do_translate_all (example_env hello_text no_write_error) (py ''proj'')
      (py ''input.txt'') (py ''out'') True [] 1)"
    by (simp add: do_translate_all_run [OF prepare_example one])
  ultimately show ?thesis by (rule conjI)
qed

text \<open>
  C8, amended (worker-count coercion): the coercion is in \<open>main\<close> only. \<open>main\<close> raises
  a configured worker count below one to one before \<open>do_translate_all\<close> runs. So a run
  that \<open>main\<close> starts with such a count is the run it starts with one worker, it is
  \<open>do_translate_all\<close> with one worker, and when the setup succeeds it returns normally:
  through \<open>main\<close> the pool is never created with no worker. \<open>do_translate_all\<close>
  itself, called with that count after a setup that succeeds, ends with the
  \<open>ValueError\<close> of the pool.
\<close>

theorem worker_count_coercion:
  "arg_workers a < 1 \<Longrightarrow>
   main env a = main env (a\<lparr>arg_workers := 1\<rparr>) \<and>
   main env a =
     do_translate_all env (arg_project a) (arg_input a) (arg_outdir a) True
       (parse_exclude (arg_exclude a)) 1 \<and>
   (\<forall>p. prepare_run env (arg_project a) (arg_input a) (arg_outdir a)
           (parse_exclude (arg_exclude a)) = Inr p \<longrightarrow>
        (\<exists>st. main env a = Inr st) \<and>
        do_translate_all env (arg_project a) (arg_input a) (arg_outdir a) True
          (parse_exclude (arg_exclude a)) (arg_workers a) =
          Inl (ValueError (py ''max_workers must be greater than 0'')))"
proof (intro conjI allI impI)
  assume small: "arg_workers a < 1"
  then have one: "max 1 (arg_workers a) = 1" by simp
  show "main env a = main env (a\<lparr>arg_workers := 1\<rparr>)"
    by (simp add: main_def one)
  show run: "main env a =
     do_translate_all env (arg_project a) (arg_input a) (arg_outdir a) True
       (parse_exclude (arg_exclude a)) 1"
    by (simp add: main_def one)
  fix p assume prep: "prepare_run env (arg_project a) (arg_input a) (arg_outdir a)
           (parse_exclude (arg_exclude a)) = Inr p"
  then show "\<exists>st. main env a = Inr st"
    unfolding run by (simp add: do_translate_all_run)
  from small have "arg_workers a \<le> 0" by simp
  with prep show "do_translate_all env (arg_project a) (arg_input a) (arg_outdir a) True
          (parse_exclude (arg_exclude a)) (arg_workers a) =
          Inl (ValueError (py ''max_workers must be greater than 0''))"
    by (rule do_translate_all_no_workers)
qed

lemma parse_exclude_example: "parse_exclude (py ''de,de, FR'') = [py ''de'', py ''de'', py ''FR'']"
  by (simp add: parse_exclude_def strip_def is_space_def py_def)

theorem worker_count_coercion_witness:
  "arg_workers (example_args 0) < 1 \<and>
   main (example_env example_text no_write_error) (example_args 0) =
     main (example_env example_text no_write_error) (example_args 1) \<and>
   prepare_run (example_env example_text no_write_error) (py ''proj'') (py ''input.txt'') (py ''out'')
     [py ''de'', py ''de'', py ''FR''] =
   Inr \<lparr>run_parent = py ''projects/proj/locations/global'', run_text = example_text,
        run_source_lang = py ''en'', run_to_translate = [(py ''fr'', py ''French'')],
        run_stdout = [Detected (py ''en''), Found 3 1]\<rparr> \<and>
   (\<exists>st. main (example_env example_text no_write_error) (example_args 0) = Inr st) \<and>
   do_translate_all (example_env example_text no_write_error) (py ''proj'') (py ''input.txt'')
     (py ''out'') True [py ''de'', py ''de'', py ''FR''] 0 =
     Inl (ValueError (py ''max_workers must be greater than 0''))"
proof -
  let ?env = "example_env example_text no_write_error"
  have small: "arg_workers (example_args 0) < 1" by (simp add: example_args_def)
  note t = worker_count_coercion [OF small, of ?env]
  have args: "(example_args 0)\<lparr>arg_workers := 1\<rparr> = example_args 1"
    by (simp add: example_args_def)
  from t have same: "main ?env (example_args 0) = main ?env (example_args 1)"
    by (simp only: args)
  note prep = prepare_example_excluding [of example_text no_write_error]
  have prep': "prepare_run ?env (arg_project (example_args 0)) (arg_input (example_args 0))
          (arg_outdir (example_args 0)) (parse_exclude (arg_exclude (example_args 0))) =
        Inr \<lparr>run_parent = py ''projects/proj/locations/global'', run_text = example_text,
             run_source_lang = py ''en'', run_to_translate = [(py ''fr'', py ''French'')],
             run_stdout = [Detected (py ''en''), Found 3 1]\<rparr>"
    using prep by (simp add: example_args_def parse_exclude_example)
  with t have returns: "\<exists>st. main ?env (example_args 0) = Inr st" by blast
  from t prep' have "do_translate_all ?env (arg_project (example_args 0)) (arg_input (example_args 0))
          (arg_outdir (example_args 0)) True (parse_exclude (arg_exclude (example_args 0)))
          (arg_workers (example_args 0)) =
          Inl (ValueError (py ''max_workers must be greater than 0''))"
    by blast
  then have direct: "do_translate_all ?env (py ''proj'') (py ''input.txt'') (py ''out'') True
      [py ''de'', py ''de'', py ''FR''] 0 =
      Inl (ValueError (py ''max_workers must be greater than 0''))"
    by (simp add: example_args_def parse_exclude_example)
  from small same prep returns direct show ?thesis by (intro conjI)
qed

end
